theory Spec2Isabelle
  imports Complex_Main "HOL-Library.Sublist" "HOL-Library.Log_Nat"
begin

section \<open>The task-logging CLI: a shallow embedding\<close>

text \<open>
  The embedding follows \<^verbatim>\<open>packages/task/common/types.ts\<close> and
  \<^verbatim>\<open>packages/task/cli/task.ts\<close>.

  Conventions of the model:
  \<^item> a JavaScript \<^verbatim>\<open>number\<close> is the rational value (\<^typ>\<open>rat\<close>) of a finite IEEE double:
    every multiplication, subtraction and number read from a text is rounded to the
    nearest double, ties to even; \<^verbatim>\<open>NaN\<close>, the infinities (so overflow beyond the
    largest double) and the sign of zero are not modelled;
  \<^item> a JavaScript string is a \<^typ>\<open>string\<close> of ASCII characters;
  \<^item> a thrown exception is the \<open>Inl\<close> branch of a sum, a returned value the \<open>Inr\<close> branch;
  \<^item> what belongs to the runtime and not to the repository (the JSON reader for objects,
    arrays and string literals, the \<^verbatim>\<open>Date\<close> conversions, the chat-completion endpoint)
    is a field of the record \<open>runtime\<close>, a parameter of every function that uses it;
  \<^item> console output is not part of the state, except the value printed by
    \<^verbatim>\<open>summarize\<close> and the message \<^verbatim>\<open>tryAppResult\<close> writes to the error stream.
\<close>

subsection \<open>Errors\<close>

text \<open>
  \<open>AppError\<close> is the class of \<^verbatim>\<open>types.ts\<close>; the other constructors are the exceptions
  of the runtime and of the client library that the code can meet: \<open>SyntaxError\<close> from
  \<^verbatim>\<open>JSON.parse\<close> and \<^verbatim>\<open>.json()\<close>, \<open>FileError\<close> from reading a file that does not exist,
  \<open>TypeError\<close> from a property access on \<^verbatim>\<open>undefined\<close>, \<open>APIError\<close> from a rejected
  chat-completion request.
\<close>

datatype error = AppError string | SyntaxError | FileError | TypeError | APIError

fun isAppError :: "error \<Rightarrow> bool" where
  "isAppError (AppError _) = True"
| "isAppError _ = False"

text \<open>The text of \<^verbatim>\<open>`${error}`\<close>: name and message for an \<open>AppError\<close>, whose name is
  set by the constructor; for the others only the name is kept.\<close>

fun error_toString :: "error \<Rightarrow> string" where
  "error_toString (AppError msg) = ''Tasks App Error: '' @ msg"
| "error_toString SyntaxError = ''SyntaxError''"
| "error_toString FileError = ''Error''"
| "error_toString TypeError = ''TypeError''"
| "error_toString APIError = ''Error''"

subsection \<open>Numbers\<close>

text \<open>
  A finite IEEE 754 double is an integer of at most 53 bits times a power of two, the
  quantum, whose exponent is at least \<open>-1074\<close>. \<open>round_double x\<close> is the double nearest
  to the rational \<open>x\<close>: with \<open>2 ^ e \<le> \<bar>x\<bar> < 2 ^ (e + 1)\<close> the quantum is
  \<open>2 ^ (e - 52)\<close>, or \<open>2 ^ (- 1074)\<close> in the subnormal range, and \<open>\<bar>x\<bar>\<close> is rounded to
  the nearest multiple of the quantum, to the even one of two that are equally near.
\<close>

definition pow2 :: "int \<Rightarrow> rat" where
  "pow2 e = (if 0 \<le> e then 2 ^ nat e else 1 / 2 ^ nat (- e))"

text \<open>The \<open>e\<close> with \<open>2 ^ e \<le> x < 2 ^ (e + 1)\<close>, for a positive \<open>x\<close>, from the bit lengths of
  its numerator and denominator.\<close>

definition floor_log2 :: "rat \<Rightarrow> int" where
  "floor_log2 x =
     (let e = bitlen (fst (quotient_of x)) - bitlen (snd (quotient_of x))
      in if pow2 e \<le> x then e else e - 1)"

definition round_half_even :: "rat \<Rightarrow> int" where
  "round_half_even y =
     (let f = \<lfloor>y\<rfloor>; r = y - of_int f
      in if r < 1 / 2 then f
         else if 1 / 2 < r then f + 1
         else if even f then f else f + 1)"

definition round_double :: "rat \<Rightarrow> rat" where
  "round_double x =
     (if x = 0 then 0
      else
        (let q = max (floor_log2 \<bar>x\<bar> - 52) (- 1074);
             m = round_half_even (\<bar>x\<bar> / pow2 q)
         in if x < 0 then - (of_int m * pow2 q) else of_int m * pow2 q))"

text \<open>The operators \<^verbatim>\<open>*\<close> and \<^verbatim>\<open>-\<close> on numbers.\<close>

definition double_mul :: "rat \<Rightarrow> rat \<Rightarrow> rat" where
  "double_mul x y = round_double (x * y)"

definition double_sub :: "rat \<Rightarrow> rat \<Rightarrow> rat" where
  "double_sub x y = round_double (x - y)"

subsection \<open>Strings\<close>

definition isWhiteSpace :: "char \<Rightarrow> bool" where
  "isWhiteSpace c \<longleftrightarrow> c \<in> set [CHR 0x09, CHR 0x0A, CHR 0x0B, CHR 0x0C, CHR 0x0D, CHR 0x20]"

text \<open>\<^verbatim>\<open>String.prototype.trim\<close>, on ASCII text.\<close>

definition trim :: "string \<Rightarrow> string" where
  "trim s = rev (dropWhile isWhiteSpace (rev (dropWhile isWhiteSpace s)))"

text \<open>\<^verbatim>\<open>s.split(sep)\<close> for a separator of one character: the result is never empty, and
  the empty string gives one empty segment.\<close>

fun split :: "char \<Rightarrow> string \<Rightarrow> string list" where
  "split sep [] = [[]]"
| "split sep (c # cs) =
     (if c = sep then [] # split sep cs
      else (case split sep cs of
              [] \<Rightarrow> [[c]]
            | seg # segs \<Rightarrow> (c # seg) # segs))"

text \<open>\<^verbatim>\<open>xs.join(sep)\<close>.\<close>

fun join :: "string \<Rightarrow> string list \<Rightarrow> string" where
  "join sep [] = []"
| "join sep [x] = x"
| "join sep (x # y # ys) = x @ sep @ join sep (y # ys)"

subsection \<open>JSON values and \<^verbatim>\<open>JSON.parse\<close>\<close>

text \<open>An object is the list of its properties; a reader leaves each key once.\<close>

datatype json =
    JNull
  | JBool bool
  | JNum rat
  | JStr string
  | JArr "json list"
  | JObj "(string \<times> json) list"

text \<open>A JSON number: \<^verbatim>\<open>-? (0 | [1-9][0-9]*) (. [0-9]+)? ([eE] [+-]? [0-9]+)?\<close>. Its
  value as a number is the double nearest to the decimal value of the text.\<close>

definition isDigit :: "char \<Rightarrow> bool" where
  "isDigit c \<longleftrightarrow> c \<in> set ''0123456789''"

definition digits_val :: "string \<Rightarrow> nat" where
  "digits_val ds = foldl (\<lambda>a c. 10 * a + (of_char c - 48)) 0 ds"

text \<open>Each part returns what it read and the rest of the text, or \<open>None\<close> when the text
  breaks the grammar.\<close>

definition json_minus :: "string \<Rightarrow> bool \<times> string" where
  "json_minus s = (case s of c # r \<Rightarrow> if c = CHR ''-'' then (True, r) else (False, s) | [] \<Rightarrow> (False, s))"

definition json_int :: "string \<Rightarrow> (string \<times> string) option" where
  "json_int s =
     (let ds = takeWhile isDigit s in
      if ds = [] \<or> (1 < length ds \<and> hd ds = CHR ''0'') then None
      else Some (ds, dropWhile isDigit s))"

definition json_frac :: "string \<Rightarrow> (string \<times> string) option" where
  "json_frac s =
     (case s of
        c # r \<Rightarrow>
          if c = CHR ''.'' then
            (if takeWhile isDigit r = [] then None
             else Some (takeWhile isDigit r, dropWhile isDigit r))
          else Some ([], s)
      | [] \<Rightarrow> Some ([], s))"

definition json_exp :: "string \<Rightarrow> (int \<times> string) option" where
  "json_exp s =
     (case s of
        c # r \<Rightarrow>
          if c = CHR ''e'' \<or> c = CHR ''E'' then
            (let (neg, r') =
                   (case r of
                      d # r'' \<Rightarrow>
                        if d = CHR ''-'' then (True, r'')
                        else if d = CHR ''+'' then (False, r'')
                        else (False, r)
                    | [] \<Rightarrow> (False, r))
             in if takeWhile isDigit r' = [] then None
                else Some ((if neg then - int (digits_val (takeWhile isDigit r'))
                            else int (digits_val (takeWhile isDigit r'))),
                           dropWhile isDigit r'))
          else Some (0, s)
      | [] \<Rightarrow> Some (0, s))"

definition json_value :: "bool \<Rightarrow> string \<Rightarrow> string \<Rightarrow> int \<Rightarrow> rat" where
  "json_value neg ip fp ex =
     (let m = of_nat (digits_val (ip @ fp)) / 10 ^ length fp;
          v = (if ex < 0 then m / 10 ^ nat (- ex) else m * 10 ^ nat ex)
      in if neg then - v else v)"

definition JSON_number :: "string \<Rightarrow> rat option" where
  "JSON_number s =
     (case json_int (snd (json_minus s)) of
        None \<Rightarrow> None
      | Some (ip, s2) \<Rightarrow>
          (case json_frac s2 of
             None \<Rightarrow> None
           | Some (fp, s3) \<Rightarrow>
               (case json_exp s3 of
                  None \<Rightarrow> None
                | Some (ex, s4) \<Rightarrow>
                    if s4 \<noteq> [] then None
                    else Some (round_double (json_value (fst (json_minus s)) ip fp ex)))))"

definition isJSONWhiteSpace :: "char \<Rightarrow> bool" where
  "isJSONWhiteSpace c \<longleftrightarrow> c \<in> set [CHR 0x09, CHR 0x0A, CHR 0x0D, CHR 0x20]"

text \<open>
  \<^verbatim>\<open>JSON.parse\<close>. The first character after the white space decides the kind of value.
  Numbers and the three literals are read here; a text that starts an object, an array
  or a string literal is handed to the runtime's reader \<open>structured\<close> (\<open>None\<close> when the
  text is malformed); any other text is a \<open>SyntaxError\<close>.
\<close>

definition JSON_parse :: "(string \<Rightarrow> json option) \<Rightarrow> string \<Rightarrow> error + json" where
  "JSON_parse structured text =
     (let t = rev (dropWhile isJSONWhiteSpace (rev (dropWhile isJSONWhiteSpace text))) in
      case t of
        [] \<Rightarrow> Inl SyntaxError
      | c # _ \<Rightarrow>
          if c = CHR ''{'' \<or> c = CHR ''['' \<or> c = CHR 0x22 then
            (case structured t of None \<Rightarrow> Inl SyntaxError | Some j \<Rightarrow> Inr j)
          else if t = ''true'' then Inr (JBool True)
          else if t = ''false'' then Inr (JBool False)
          else if t = ''null'' then Inr JNull
          else (case JSON_number t of None \<Rightarrow> Inl SyntaxError | Some q \<Rightarrow> Inr (JNum q)))"

subsection \<open>Schemas (\<^verbatim>\<open>types.ts\<close>)\<close>

text \<open>A \<^verbatim>\<open>safeParse\<close> is a function to \<open>option\<close>: \<open>None\<close> is \<^verbatim>\<open>success: false\<close>. The text
  of the schema library's report is left out of the message.\<close>

definition trySafeParse :: "string \<Rightarrow> 'a option \<Rightarrow> error + 'a" where
  "trySafeParse label pr =
     (case pr of
        None \<Rightarrow> Inl (AppError (''Parse error at \"'' @ label @ ''\"''))
      | Some d \<Rightarrow> Inr d)"

datatype TimeUnit = UMin | UHour | UDay | UWeek | UYear

definition TimeUnit_schema :: "json \<Rightarrow> TimeUnit option" where
  "TimeUnit_schema j =
     (if j = JStr ''min'' then Some UMin
      else if j = JStr ''hour'' then Some UHour
      else if j = JStr ''day'' then Some UDay
      else if j = JStr ''week'' then Some UWeek
      else if j = JStr ''year'' then Some UYear
      else None)"

text \<open>The type \<^verbatim>\<open>Duration = { n: number, unit: TimeUnit }\<close>; the fields carry a prefix
  because \<open>n\<close> would otherwise be a constant. The constructors of \<open>TimeUnit\<close> are the
  five literals, with a prefix because \<open>Min\<close> is a constant of HOL.\<close>

record Duration =
  dur_n :: rat
  dur_unit :: TimeUnit

definition z_number :: "json \<Rightarrow> rat option" where
  "z_number j = (case j of JNum q \<Rightarrow> Some q | _ \<Rightarrow> None)"

definition z_string :: "json \<Rightarrow> string option" where
  "z_string j = (case j of JStr s \<Rightarrow> Some s | _ \<Rightarrow> None)"

text \<open>The inner function \<^verbatim>\<open>go\<close> of \<^verbatim>\<open>parseDuration\<close>, applied to the two segments.\<close>

definition go :: "(string \<Rightarrow> json option) \<Rightarrow> string \<Rightarrow> string \<Rightarrow> error + Duration" where
  "go structured s0 s1 =
     (case JSON_parse structured s0 of
        Inl e \<Rightarrow> Inl e
      | Inr j \<Rightarrow>
          (case trySafeParse ''number'' (z_number j) of
             Inl e \<Rightarrow> Inl e
           | Inr k \<Rightarrow>
               (case trySafeParse ''unit'' (TimeUnit_schema (JStr s1)) of
                  Inl e \<Rightarrow> Inl e
                | Inr u \<Rightarrow> Inr \<lparr>dur_n = k, dur_unit = u\<rparr>)))"

definition parseDuration :: "(string \<Rightarrow> json option) \<Rightarrow> string \<Rightarrow> error + Duration" where
  "parseDuration structured s0 =
     (let s = trim s0 in
      case split CHR '' '' s of
        [a, b] \<Rightarrow> go structured a b
      | _ \<Rightarrow>
          (case split CHR ''.'' s of
             [a, b] \<Rightarrow> go structured a b
           | _ \<Rightarrow> Inl (AppError (''Error during parseDuration: invalid Duration: '' @ s0))))"

text \<open>The literal of a unit, as \<^verbatim>\<open>showDuration\<close> and \<^verbatim>\<open>JSON.stringify\<close> write it.\<close>

definition showDuration_unit :: "TimeUnit \<Rightarrow> string" where
  "showDuration_unit u =
     (case u of UMin \<Rightarrow> ''min'' | UHour \<Rightarrow> ''hour'' | UDay \<Rightarrow> ''day'' | UWeek \<Rightarrow> ''week''
      | UYear \<Rightarrow> ''year'')"

subsection \<open>Durations in milliseconds (\<^verbatim>\<open>task.ts\<close>)\<close>

text \<open>The products of \<^verbatim>\<open>getTime_Duration\<close> are taken from the left, as \<^verbatim>\<open>n * 1000 * 60\<close>
  is evaluated, and each is rounded.\<close>

definition getTime_Duration :: "Duration \<Rightarrow> rat" where
  "getTime_Duration d =
     (case dur_unit d of
        UMin \<Rightarrow> double_mul (double_mul (dur_n d) 1000) 60
      | UHour \<Rightarrow> double_mul (double_mul (double_mul (dur_n d) 1000) 60) 60
      | UDay \<Rightarrow> double_mul (double_mul (double_mul (double_mul (dur_n d) 1000) 60) 60) 24
      | UWeek \<Rightarrow>
          double_mul (double_mul (double_mul (double_mul (double_mul (dur_n d) 1000) 60) 60) 24) 7
      | UYear \<Rightarrow>
          double_mul (double_mul (double_mul (double_mul (double_mul (dur_n d) 1000) 60) 60) 24) 265)"

subsection \<open>Tasks and the configuration (\<^verbatim>\<open>types.ts\<close>)\<close>

record Task =
  date :: string
  description :: string
  short_description :: "string option"
  tags :: "string list option"

record Config =
  baseURL :: "string option"
  apiKey :: "string option"
  model :: "string option"
  recency :: "Duration option"

text \<open>A property of an object that a schema requires, and one it declares with
  \<^verbatim>\<open>z.optional\<close>: an absent key is accepted and stays absent, a present one must
  satisfy the inner schema (so \<^verbatim>\<open>null\<close> is refused).\<close>

definition z_required :: "(json \<Rightarrow> 'a option) \<Rightarrow> json option \<Rightarrow> 'a option" where
  "z_required sch v = (case v of None \<Rightarrow> None | Some j \<Rightarrow> sch j)"

definition z_optional :: "(json \<Rightarrow> 'a option) \<Rightarrow> json option \<Rightarrow> 'a option option" where
  "z_optional sch v =
     (case v of
        None \<Rightarrow> Some None
      | Some j \<Rightarrow> (case sch j of None \<Rightarrow> None | Some x \<Rightarrow> Some (Some x)))"

definition z_array :: "(json \<Rightarrow> 'a option) \<Rightarrow> json \<Rightarrow> 'a list option" where
  "z_array sch j = (case j of JArr js \<Rightarrow> those (map sch js) | _ \<Rightarrow> None)"

text \<open>\<^verbatim>\<open>z.object\<close> accepts an object only, reads the declared keys and drops the others.\<close>

definition Task_schema :: "json \<Rightarrow> Task option" where
  "Task_schema j =
     (case j of
        JObj kvs \<Rightarrow>
          Option.bind (z_required z_string (map_of kvs ''date'')) (\<lambda>d.
          Option.bind (z_required z_string (map_of kvs ''description'')) (\<lambda>ds.
          Option.bind (z_optional z_string (map_of kvs ''short_description'')) (\<lambda>sd.
          Option.bind (z_optional (z_array z_string) (map_of kvs ''tags'')) (\<lambda>tg.
            Some \<lparr>date = d, description = ds, short_description = sd, tags = tg\<rparr>))))
      | _ \<Rightarrow> None)"

definition Tasks_schema :: "json \<Rightarrow> Task list option" where
  "Tasks_schema = z_array Task_schema"

definition Duration_schema :: "json \<Rightarrow> Duration option" where
  "Duration_schema j =
     (case j of
        JObj kvs \<Rightarrow>
          Option.bind (z_required z_number (map_of kvs ''n'')) (\<lambda>k.
          Option.bind (z_required TimeUnit_schema (map_of kvs ''unit'')) (\<lambda>u.
            Some \<lparr>dur_n = k, dur_unit = u\<rparr>))
      | _ \<Rightarrow> None)"

definition Config_schema :: "json \<Rightarrow> Config option" where
  "Config_schema j =
     (case j of
        JObj kvs \<Rightarrow>
          Option.bind (z_optional z_string (map_of kvs ''baseURL'')) (\<lambda>b.
          Option.bind (z_optional z_string (map_of kvs ''apiKey'')) (\<lambda>k.
          Option.bind (z_optional z_string (map_of kvs ''model'')) (\<lambda>m.
          Option.bind (z_optional Duration_schema (map_of kvs ''recency'')) (\<lambda>r.
            Some \<lparr>baseURL = b, apiKey = k, model = m, recency = r\<rparr>))))
      | _ \<Rightarrow> None)"

definition default_Config :: Config where
  "default_Config =
     \<lparr>baseURL = Some ''http://localhost:11434/v1'',
      apiKey = Some ''ollama'',
      model = Some ''llama3.2:latest'',
      recency = Some \<lparr>dur_n = 1, dur_unit = UDay\<rparr>\<rparr>"

text \<open>
  The value that \<^verbatim>\<open>JSON.stringify\<close> writes, as the JSON value a reader gets back from the
  text: a property that is \<^verbatim>\<open>undefined\<close> is left out. The order of the keys and the
  layout of the text are not modelled.
\<close>

definition Task_json :: "Task \<Rightarrow> json" where
  "Task_json t =
     JObj ([(''date'', JStr (date t)), (''description'', JStr (description t))]
           @ (case short_description t of None \<Rightarrow> [] | Some s \<Rightarrow> [(''short_description'', JStr s)])
           @ (case tags t of None \<Rightarrow> [] | Some tg \<Rightarrow> [(''tags'', JArr (map JStr tg))]))"

definition Tasks_json :: "Task list \<Rightarrow> json" where
  "Tasks_json ts = JArr (map Task_json ts)"

definition Duration_json :: "Duration \<Rightarrow> json" where
  "Duration_json d =
     JObj [(''n'', JNum (dur_n d)), (''unit'', JStr (showDuration_unit (dur_unit d)))]"

definition Config_json :: "Config \<Rightarrow> json" where
  "Config_json c =
     JObj ((case baseURL c of None \<Rightarrow> [] | Some s \<Rightarrow> [(''baseURL'', JStr s)])
           @ (case apiKey c of None \<Rightarrow> [] | Some s \<Rightarrow> [(''apiKey'', JStr s)])
           @ (case model c of None \<Rightarrow> [] | Some s \<Rightarrow> [(''model'', JStr s)])
           @ (case recency c of None \<Rightarrow> [] | Some d \<Rightarrow> [(''recency'', Duration_json d)]))"

subsection \<open>The runtime and the state\<close>

text \<open>
  A chat-completion request carries the client's settings and the two messages. The
  endpoint either rejects the request or answers with a list of choices, each with a
  content that may be \<^verbatim>\<open>null\<close>.
\<close>

record request =
  req_baseURL :: string
  req_apiKey :: string
  req_model :: string
  req_system :: string
  req_user :: string

datatype chat_outcome = Rejected | Response "string option list"

text \<open>
  \<open>JSON_structured\<close> reads a text that starts an object, an array or a string literal;
  \<open>Date_getTime\<close> is \<^verbatim>\<open>new Date(s).getTime()\<close>, with \<open>None\<close> for \<^verbatim>\<open>NaN\<close>;
  \<open>Date_toUTCString\<close> is \<^verbatim>\<open>toUTCString\<close> of the instant given in milliseconds;
  \<open>chat_create k\<close> is the endpoint's answer to the request when \<open>k\<close> requests have been
  sent before it.
\<close>

record runtime =
  JSON_structured :: "string \<Rightarrow> json option"
  Date_getTime :: "string \<Rightarrow> rat option"
  Date_toUTCString :: "rat \<Rightarrow> string"
  chat_create :: "nat \<Rightarrow> request \<Rightarrow> chat_outcome"

text \<open>A file holds a text; the model keeps what \<^verbatim>\<open>.json()\<close> makes of it.\<close>

datatype file_content = NotJSON | JSONText json

record world =
  files :: "string \<rightharpoonup> file_content"
  requests :: nat

record argv =
  dir :: string
  config :: string

subsection \<open>Paths (\<^verbatim>\<open>common.ts\<close>)\<close>

definition get_dir :: "argv \<Rightarrow> string" where
  "get_dir a = dir a"

definition get_config_filepath :: "argv \<Rightarrow> string" where
  "get_config_filepath a = dir a @ ''/config.json''"

definition get_tasks_filepath :: "argv \<Rightarrow> string" where
  "get_tasks_filepath a = dir a @ ''/tasks.json''"

subsection \<open>Loading and saving (\<^verbatim>\<open>task.ts\<close>)\<close>

text \<open>\<^verbatim>\<open>Bun.file(path).json()\<close>.\<close>

definition Bun_file_json :: "world \<Rightarrow> string \<Rightarrow> error + json" where
  "Bun_file_json w path =
     (case files w path of
        None \<Rightarrow> Inl FileError
      | Some NotJSON \<Rightarrow> Inl SyntaxError
      | Some (JSONText j) \<Rightarrow> Inr j)"

text \<open>\<^verbatim>\<open>Bun.write(file, JSON.stringify(v))\<close>; the write is taken to be complete when the
  function returns.\<close>

definition Bun_write :: "world \<Rightarrow> string \<Rightarrow> json \<Rightarrow> world" where
  "Bun_write w path j = w\<lparr>files := (files w)(path \<mapsto> JSONText j)\<rparr>"

text \<open>The object spread \<^verbatim>\<open>{ ...config, ...config_override }\<close>: a key of the second object
  replaces the same key of the first.\<close>

definition spread :: "Config \<Rightarrow> Config \<Rightarrow> Config" where
  "spread c ov =
     \<lparr>baseURL = (case baseURL ov of Some v \<Rightarrow> Some v | None \<Rightarrow> baseURL c),
      apiKey = (case apiKey ov of Some v \<Rightarrow> Some v | None \<Rightarrow> apiKey c),
      model = (case model ov of Some v \<Rightarrow> Some v | None \<Rightarrow> model c),
      recency = (case recency ov of Some v \<Rightarrow> Some v | None \<Rightarrow> recency c)\<rparr>"

definition load_config :: "runtime \<Rightarrow> world \<Rightarrow> argv \<Rightarrow> error + Config" where
  "load_config rt w a =
     (case Bun_file_json w (get_config_filepath a) of
        Inl e \<Rightarrow> Inl e
      | Inr config_json \<Rightarrow>
          (case trySafeParse ''load_config'' (Config_schema config_json) of
             Inl e \<Rightarrow> Inl e
           | Inr cfg \<Rightarrow>
               (case JSON_parse (JSON_structured rt) (config a) of
                  Inl e \<Rightarrow> Inl e
                | Inr override_json \<Rightarrow>
                    (case trySafeParse ''load_config (override)'' (Config_schema override_json) of
                       Inl e \<Rightarrow> Inl e
                     | Inr config_override \<Rightarrow> Inr (spread cfg config_override)))))"

definition save_config :: "world \<Rightarrow> argv \<Rightarrow> Config \<Rightarrow> world" where
  "save_config w a c = Bun_write w (get_config_filepath a) (Config_json c)"

definition load_tasks :: "world \<Rightarrow> argv \<Rightarrow> error + Task list" where
  "load_tasks w a =
     (case Bun_file_json w (get_tasks_filepath a) of
        Inl e \<Rightarrow> Inl e
      | Inr tasks_json \<Rightarrow> trySafeParse ''load_tasks'' (Tasks_schema tasks_json))"

definition save_tasks :: "world \<Rightarrow> argv \<Rightarrow> Task list \<Rightarrow> world" where
  "save_tasks w a ts = Bun_write w (get_tasks_filepath a) (Tasks_json ts)"

text \<open>\<^verbatim>\<open>extract_recent_tasks\<close>; \<open>now\<close> is the value of \<^verbatim>\<open>(new Date()).getTime()\<close>. A
  comparison with \<^verbatim>\<open>NaN\<close> is false.\<close>

definition extract_recent_tasks :: "runtime \<Rightarrow> rat \<Rightarrow> Task list \<Rightarrow> Duration \<Rightarrow> Task list" where
  "extract_recent_tasks rt now ts d =
     (let cutoff_time = double_sub now (getTime_Duration d) in
      filter (\<lambda>task. case Date_getTime rt (date task) of
                        None \<Rightarrow> False
                      | Some ms \<Rightarrow> cutoff_time \<le> ms) ts)"

subsection \<open>The summary client, one task at a time\<close>

definition short_description_prompt :: string where
  "short_description_prompt =
     ''You are a specialized assistant for summarizing reports of completed tasks into concise, short 1-sentence summaries. The user will give you a description of a task they completed. You should respond with a single, very concise, 1-sentence summary of the task, which just captures the essence of description. Reply with JUST your summary.''"

text \<open>The client and the request that \<^verbatim>\<open>generate_short_description\<close> and \<^verbatim>\<open>summarize\<close>
  build from the loaded configuration: each of the three settings is the
  configuration's when it is defined and the one of \<open>default_Config\<close> otherwise. The
  construction of the client is taken to succeed.\<close>

definition make_request :: "Config \<Rightarrow> string \<Rightarrow> string \<Rightarrow> request" where
  "make_request cfg sys usr =
     \<lparr>req_baseURL = (if baseURL cfg \<noteq> None then the (baseURL cfg) else the (baseURL default_Config)),
      req_apiKey = (if apiKey cfg \<noteq> None then the (apiKey cfg) else the (apiKey default_Config)),
      req_model = (if model cfg \<noteq> None then the (model cfg) else the (model default_Config)),
      req_system = sys,
      req_user = usr\<rparr>"

text \<open>The body of the \<^verbatim>\<open>try\<close> block, given the endpoint's answer: a rejected request
  throws, \<^verbatim>\<open>reply.choices[0].message\<close> throws when there is no choice, and a \<^verbatim>\<open>null\<close>
  content throws an \<open>AppError\<close>.\<close>

definition reply_content :: "chat_outcome \<Rightarrow> error + string" where
  "reply_content r =
     (case r of
        Rejected \<Rightarrow> Inl APIError
      | Response choices \<Rightarrow>
          (case choices of
             [] \<Rightarrow> Inl TypeError
           | content # _ \<Rightarrow>
               (case content of
                  None \<Rightarrow> Inl (AppError (''Error when generating short description: reply'' @ [CHR 0x27] @ ''s content is null''))
                | Some c \<Rightarrow> Inr c)))"

definition generate_short_description ::
    "runtime \<Rightarrow> world \<Rightarrow> argv \<Rightarrow> string \<Rightarrow> (error + string) \<times> world" where
  "generate_short_description rt w a descr =
     (case load_config rt w a of
        Inl e \<Rightarrow> (Inl e, w)
      | Inr cfg \<Rightarrow>
          (case reply_content (chat_create rt (requests w) (make_request cfg short_description_prompt descr)) of
             Inl error \<Rightarrow>
               (Inl (AppError (''Error when generating short description: '' @ error_toString error)),
                w\<lparr>requests := Suc (requests w)\<rparr>)
           | Inr content \<Rightarrow> (Inr content, w\<lparr>requests := Suc (requests w)\<rparr>)))"

subsection \<open>The commands\<close>

text \<open>\<^verbatim>\<open>tryAppResult\<close>: an \<open>AppError\<close> is caught and its message written to the error
  stream; any other exception is thrown again.\<close>

datatype outcome = Completed | Reported string | Uncaught error

definition tryAppResult :: "(error + 'a) \<times> world \<Rightarrow> outcome \<times> world" where
  "tryAppResult r =
     (case fst r of
        Inr _ \<Rightarrow> (Completed, snd r)
      | Inl e \<Rightarrow> (case e of AppError msg \<Rightarrow> (Reported msg, snd r) | _ \<Rightarrow> (Uncaught e, snd r)))"

text \<open>\<^verbatim>\<open>init\<close>. Directories are not part of the state: only the two files are.\<close>

definition cmd_init :: "world \<Rightarrow> argv \<Rightarrow> (error + unit) \<times> world" where
  "cmd_init w a = (Inr (), save_config (save_tasks w a []) a default_Config)"

text \<open>
  \<^verbatim>\<open>new\<close>. \<open>now\<close> is the instant read at the start of the command, \<open>now'\<close> the one read
  inside \<^verbatim>\<open>extract_recent_tasks\<close>; \<open>task_arg\<close> and \<open>tags_arg\<close> are \<^verbatim>\<open>argv.task\<close> and
  \<^verbatim>\<open>argv.tags\<close> (\<open>None\<close> when the option is not given). The result is what the closing
  message reports: the number of recent tasks and the duration.
\<close>

definition new_task :: "runtime \<Rightarrow> rat \<Rightarrow> string \<Rightarrow> string \<Rightarrow> string option \<Rightarrow> Task" where
  "new_task rt now descr sd tags_arg =
     \<lparr>date = Date_toUTCString rt now,
      description = descr,
      short_description = Some sd,
      tags = Some (if tags_arg = None \<or> trim (the tags_arg) = [] then []
                   else split CHR '','' (trim (the tags_arg)))\<rparr>"

definition cmd_new ::
    "runtime \<Rightarrow> world \<Rightarrow> rat \<Rightarrow> rat \<Rightarrow> argv \<Rightarrow> string \<Rightarrow> string option
      \<Rightarrow> (error + nat \<times> Duration) \<times> world" where
  "cmd_new rt w now now' a task_arg tags_arg =
     (case load_config rt w a of
        Inl e \<Rightarrow> (Inl e, w)
      | Inr cfg \<Rightarrow>
          (case generate_short_description rt w a (trim task_arg) of
             (Inl e, w1) \<Rightarrow> (Inl e, w1)
           | (Inr sd, w1) \<Rightarrow>
               (case load_tasks w1 a of
                  Inl e \<Rightarrow> (Inl e, w1)
                | Inr ts \<Rightarrow>
                    (let ts' = ts @ [new_task rt now (trim task_arg) sd tags_arg];
                         rc = (case recency cfg of Some r \<Rightarrow> r | None \<Rightarrow> the (recency default_Config));
                         recent_tasks = extract_recent_tasks rt now' ts' rc
                     in (Inr (length recent_tasks, rc), save_tasks w1 a ts')))))"

text \<open>\<^verbatim>\<open>gen-short-descriptions\<close>: the loop over the loaded tasks, then the one save.\<close>

fun backfill :: "runtime \<Rightarrow> argv \<Rightarrow> world \<Rightarrow> Task list \<Rightarrow> (error + Task list) \<times> world" where
  "backfill rt a w [] = (Inr [], w)"
| "backfill rt a w (t # ts) =
     (if short_description t = None then
        (case generate_short_description rt w a (description t) of
           (Inl e, w1) \<Rightarrow> (Inl e, w1)
         | (Inr sd, w1) \<Rightarrow>
             (case backfill rt a w1 ts of
                (Inl e, w2) \<Rightarrow> (Inl e, w2)
              | (Inr ts', w2) \<Rightarrow> (Inr (t\<lparr>short_description := Some sd\<rparr> # ts'), w2)))
      else
        (case backfill rt a w ts of
           (Inl e, w2) \<Rightarrow> (Inl e, w2)
         | (Inr ts', w2) \<Rightarrow> (Inr (t # ts'), w2)))"

definition cmd_gen_short_descriptions :: "runtime \<Rightarrow> world \<Rightarrow> argv \<Rightarrow> (error + unit) \<times> world" where
  "cmd_gen_short_descriptions rt w a =
     (case load_tasks w a of
        Inl e \<Rightarrow> (Inl e, w)
      | Inr ts \<Rightarrow>
          (case backfill rt a w ts of
             (Inl e, w1) \<Rightarrow> (Inl e, w1)
           | (Inr ts', w1) \<Rightarrow> (Inr (), save_tasks w1 a ts')))"

text \<open>\<^verbatim>\<open>show\<close>, up to the list of tasks that is rendered; the Markdown is not modelled.
  \<open>recency_arg\<close> is \<^verbatim>\<open>argv.recency\<close>, \<open>tags_arg\<close> is \<^verbatim>\<open>argv.tags\<close>, whose default is the
  empty string.\<close>

definition filter_tags :: "string list \<Rightarrow> Task list \<Rightarrow> Task list" where
  "filter_tags tgs recent_tasks =
     (if 0 < length tgs then
        filter (\<lambda>task. tags task \<noteq> None
                  \<and> \<not> list_all (\<lambda>tag. \<not> List.member (the (tags task)) tag) tgs) recent_tasks
      else recent_tasks)"

definition cmd_show ::
    "runtime \<Rightarrow> world \<Rightarrow> rat \<Rightarrow> argv \<Rightarrow> string option \<Rightarrow> string \<Rightarrow> error + Task list" where
  "cmd_show rt w now a recency_arg tags_arg =
     (case load_tasks w a of
        Inl e \<Rightarrow> Inl e
      | Inr ts \<Rightarrow>
          (let tgs = (if trim tags_arg = [] then [] else split CHR '','' (trim tags_arg)) in
           case recency_arg of
             None \<Rightarrow> Inr (filter_tags tgs ts)
           | Some r \<Rightarrow>
               (case parseDuration (JSON_structured rt) r of
                  Inl e \<Rightarrow> Inl e
                | Inr d \<Rightarrow> Inr (filter_tags tgs (extract_recent_tasks rt now ts d)))))"

text \<open>\<^verbatim>\<open>summarize\<close>. The result is the value given to \<^verbatim>\<open>console.log\<close>: \<open>None\<close> is
  \<^verbatim>\<open>null\<close>, which is printed as the text \<^verbatim>\<open>null\<close>.\<close>

definition summarize_prompt :: string where
  "summarize_prompt =
     ''You are a helpful assistant for summarizes transcripts of tasks that have been completed recently.''
     @ [CHR 0x0A, CHR 0x0A]
     @ ''The user will provide a detailed transcript of all the tasks they have completed recently. You should reply with a short summary that accurately and comprehensively sums up the transcript. Make sure to include high-level descriptions that at least accounts for every single task that was completed. It is critical that your summary reflects at least something about each task in the transcript.''
     @ [CHR 0x0A, CHR 0x0A]
     @ ''Your response must only contain your summary. DO NOT editorialize. Just write very plain descriptions of what happened, WITHOUT any observations or judgments about it. Use bullet points.''"

definition transcript_of :: "Task list \<Rightarrow> string" where
  "transcript_of recent_tasks =
     join [CHR 0x0A, CHR 0x0A]
       (map (\<lambda>task. trim ([CHR 0x0A] @ description task @ [CHR 0x0A] @ ''          '')) recent_tasks)"

definition cmd_summarize ::
    "runtime \<Rightarrow> world \<Rightarrow> rat \<Rightarrow> argv \<Rightarrow> string \<Rightarrow> (error + string option) \<times> world" where
  "cmd_summarize rt w now a duration_arg =
     (case load_config rt w a of
        Inl e \<Rightarrow> (Inl e, w)
      | Inr cfg \<Rightarrow>
          (case parseDuration (JSON_structured rt) duration_arg of
             Inl e \<Rightarrow> (Inl e, w)
           | Inr d \<Rightarrow>
               (case load_tasks w a of
                  Inl e \<Rightarrow> (Inl e, w)
                | Inr ts \<Rightarrow>
                    (case chat_create rt (requests w)
                            (make_request cfg summarize_prompt
                               ([CHR 0x0A] @ ''Transcript:'' @ [CHR 0x0A, CHR 0x0A]
                                @ transcript_of (extract_recent_tasks rt now ts d))) of
                       Rejected \<Rightarrow> (Inl APIError, w\<lparr>requests := Suc (requests w)\<rparr>)
                     | Response choices \<Rightarrow>
                         (case choices of
                            [] \<Rightarrow> (Inl TypeError, w\<lparr>requests := Suc (requests w)\<rparr>)
                          | summary # _ \<Rightarrow> (Inr summary, w\<lparr>requests := Suc (requests w)\<rparr>))))))"

subsection \<open>What the backfill may change of a task\<close>

text \<open>\<open>backfilled t t'\<close>: \<open>t'\<close> is \<open>t\<close> with its date, description and tags, with its short
  description when \<open>t\<close> has one, and with some short description when \<open>t\<close> has none.\<close>

definition backfilled :: "Task \<Rightarrow> Task \<Rightarrow> bool" where
  "backfilled t t' \<longleftrightarrow>
     date t' = date t \<and> description t' = description t \<and> tags t' = tags t
     \<and> (case short_description t of
           Some s \<Rightarrow> short_description t' = Some s
         | None \<Rightarrow> short_description t' \<noteq> None)"

subsection \<open>Sample inputs\<close>

text \<open>A runtime that reads the two override texts used below, knows three dates and
  gives the same answer to every chat-completion request; three tasks dated now, two
  hours ago and two days ago, with the tags \<open>a\<close>, \<open>b\<close> and none; a directory that
  holds a configuration file and these tasks, and one that holds nothing.\<close>

definition sample_argv :: argv where
  "sample_argv = \<lparr>dir = ''/home/user/.tasks'', config = ''{}''\<rparr>"

definition override_argv :: argv where
  "override_argv = \<lparr>dir = ''/home/user/.tasks'', config = ''{\"model\":\"y\"}''\<rparr>"

definition sample_structured :: "string \<Rightarrow> json option" where
  "sample_structured s =
     (if s = ''{}'' then Some (JObj [])
      else if s = ''{\"model\":\"y\"}'' then Some (JObj [(''model'', JStr ''y'')])
      else None)"

definition sample_getTime :: "string \<Rightarrow> rat option" where
  "sample_getTime s =
     (if s = ''Sat, 03 Jan 1970 00:00:00 GMT'' then Some 172800000
      else if s = ''Fri, 02 Jan 1970 22:00:00 GMT'' then Some 165600000
      else if s = ''Thu, 01 Jan 1970 00:00:00 GMT'' then Some 0
      else None)"

definition sample_toUTCString :: "rat \<Rightarrow> string" where
  "sample_toUTCString t =
     (if t = 172800000 then ''Sat, 03 Jan 1970 00:00:00 GMT''
      else if t = 165600000 then ''Fri, 02 Jan 1970 22:00:00 GMT''
      else if t = 0 then ''Thu, 01 Jan 1970 00:00:00 GMT''
      else ''Invalid Date'')"

definition sample_runtime :: "chat_outcome \<Rightarrow> runtime" where
  "sample_runtime reply =
     \<lparr>JSON_structured = sample_structured,
      Date_getTime = sample_getTime,
      Date_toUTCString = sample_toUTCString,
      chat_create = (\<lambda>k r. reply)\<rparr>"

definition sample_tasks :: "Task list" where
  "sample_tasks =
     [\<lparr>date = ''Sat, 03 Jan 1970 00:00:00 GMT'', description = ''wrote the report'',
        short_description = Some ''report'', tags = Some [''a'']\<rparr>,
      \<lparr>date = ''Fri, 02 Jan 1970 22:00:00 GMT'', description = ''fixed the parser'',
        short_description = None, tags = Some [''b'']\<rparr>,
      \<lparr>date = ''Thu, 01 Jan 1970 00:00:00 GMT'', description = ''planned the week'',
        short_description = None, tags = Some []\<rparr>]"

definition uninitialized_world :: world where
  "uninitialized_world = \<lparr>files = Map.empty, requests = 0\<rparr>"

definition sample_world :: "json \<Rightarrow> world" where
  "sample_world config_json =
     \<lparr>files = [get_config_filepath sample_argv \<mapsto> JSONText config_json,
               get_tasks_filepath sample_argv \<mapsto> JSONText (Tasks_json sample_tasks)],
      requests = 0\<rparr>"

section \<open>Properties\<close>

subsection \<open>Rounding to a double\<close>

text \<open>\<open>floor_log2\<close> brackets every positive number between two powers of two; an
  integer of magnitude at most \<open>2 ^ 53\<close> is rounded to itself.\<close>

lemma pow2_pos: "0 < pow2 e"
  by (simp add: pow2_def)

lemma bitlen_one: "bitlen 1 = 1"
  by (simp add: bitlen_alt_def)

lemma floor_log2_of_int:
  assumes "0 < a"
  shows "floor_log2 (of_int a) = bitlen a - 1"
proof -
  from assms have b: "1 \<le> bitlen a"
    by (auto simp: bitlen_alt_def)
  from bitlen_bounds [OF assms] have "(2::int) ^ nat (bitlen a - 1) \<le> a"
    by simp
  then have "(of_int ((2::int) ^ nat (bitlen a - 1)) :: rat) \<le> of_int a"
    by (simp only: of_int_le_iff)
  then have "pow2 (bitlen a - 1) \<le> of_int a"
    using b by (simp add: pow2_def)
  then show ?thesis
    by (simp add: floor_log2_def bitlen_one)
qed

lemma round_half_even_of_int: "round_half_even (of_int k) = k"
  by (simp add: round_half_even_def)

lemma round_double_exact:
  assumes "\<bar>x\<bar> / pow2 (max (floor_log2 \<bar>x\<bar> - 52) (- 1074)) = of_int k"
  shows "round_double x = x"
proof -
  define q where "q = max (floor_log2 \<bar>x\<bar> - 52) (- 1074)"
  from assms have m: "round_half_even (\<bar>x\<bar> / pow2 q) = k"
    by (simp only: q_def round_half_even_of_int)
  from assms have v: "of_int k * pow2 q = \<bar>x\<bar>"
    using pow2_pos [of q] by (simp add: q_def field_simps)
  have "round_double x =
      (if x = 0 then 0 else if x < 0 then - (of_int k * pow2 q) else of_int k * pow2 q)"
    unfolding round_double_def Let_def q_def [symmetric] m ..
  also have "\<dots> = x"
    unfolding v by simp
  finally show ?thesis .
qed

lemma round_double_of_int:
  assumes "\<bar>m\<bar> \<le> 2 ^ 53"
  shows "round_double (of_int m) = of_int m"
proof (cases "m = 0")
  case True
  then show ?thesis
    by (simp add: round_double_def)
next
  case False
  define a where "a = \<bar>m\<bar>"
  define l where "l = bitlen a - 1"
  from False have pos: "0 < a"
    by (simp add: a_def)
  then have l0: "0 \<le> l"
    by (auto simp: l_def bitlen_alt_def)
  from bitlen_bounds [OF pos] have lo: "2 ^ nat l \<le> a"
    by (simp add: l_def)
  have abs: "\<bar>rat_of_int m\<bar> = of_int a"
    by (simp add: a_def)
  have fl: "floor_log2 (rat_of_int a) = l"
    unfolding l_def using pos by (rule floor_log2_of_int)
  from lo assms have le: "(2::int) ^ nat l \<le> 2 ^ 53"
    by (simp add: a_def)
  have "nat l \<le> 53"
    by (rule power_le_imp_le_exp [OF _ le]) simp
  with l0 have l53: "l \<le> 53"
    by simp
  have q: "max (l - 52) (- 1074) = l - 52"
    using l0 by simp
  have "\<exists>k. of_int a / pow2 (l - 52) = rat_of_int k"
  proof (cases "l \<le> 52")
    case True
    then have "pow2 (l - 52) = 1 / 2 ^ nat (52 - l)"
      by (cases "l = 52") (simp_all add: pow2_def)
    then have "of_int a / pow2 (l - 52) = rat_of_int (a * 2 ^ nat (52 - l))"
      by simp
    then show ?thesis ..
  next
    case False
    with l53 have l: "l = 53"
      by simp
    with lo assms have "a = 2 ^ 53"
      by (simp add: a_def)
    with l have "of_int a / pow2 (l - 52) = rat_of_int (2 ^ 52)"
      by (simp add: pow2_def)
    then show ?thesis ..
  qed
  then obtain k where "\<bar>rat_of_int m\<bar> / pow2 (max (floor_log2 \<bar>rat_of_int m\<bar> - 52) (- 1074)) = of_int k"
    unfolding abs fl q by blast
  then show ?thesis
    by (rule round_double_exact)
qed

lemma double_mul_of_int:
  "\<bar>a * b\<bar> \<le> 2 ^ 53 \<Longrightarrow> double_mul (of_int a) (of_int b) = of_int (a * b)"
  using round_double_of_int [of "a * b"] by (simp add: double_mul_def)

lemma pow2_powi: "pow2 e = 2 powi e"
  by (simp add: pow2_def power_int_def inverse_eq_divide power_one_over)

lemma floor_log2_bounds:
  assumes "0 < x"
  shows "pow2 (floor_log2 x) \<le> x \<and> x < pow2 (floor_log2 x + 1)"
proof -
  obtain p q where pq: "quotient_of x = (p, q)"
    by (cases "quotient_of x")
  then have q: "0 < q"
    by (rule quotient_of_denom_pos)
  from pq have x: "x = of_int p / of_int q"
    by (rule quotient_of_div)
  with assms q have p: "0 < p"
    by (simp add: zero_less_divide_iff)
  define e where "e = bitlen p - bitlen q"
  from bitlen_bounds [OF p] have "rat_of_int (2 ^ nat (bitlen p - 1)) \<le> of_int p"
    and "rat_of_int p < of_int (2 ^ nat (bitlen p))"
    by (simp_all only: of_int_le_iff of_int_less_iff)
  moreover from p have "1 \<le> bitlen p"
    by (auto simp: bitlen_alt_def)
  ultimately have pb: "2 powi (bitlen p - 1) \<le> rat_of_int p" "rat_of_int p < 2 powi bitlen p"
    by (simp_all add: power_int_def)
  from bitlen_bounds [OF q] have "rat_of_int (2 ^ nat (bitlen q - 1)) \<le> of_int q"
    and "rat_of_int q < of_int (2 ^ nat (bitlen q))"
    by (simp_all only: of_int_le_iff of_int_less_iff)
  moreover from q have "1 \<le> bitlen q"
    by (auto simp: bitlen_alt_def)
  ultimately have qb: "2 powi (bitlen q - 1) \<le> rat_of_int q" "rat_of_int q < 2 powi bitlen q"
    by (simp_all add: power_int_def)
  have qpos: "0 < rat_of_int q"
    using q by simp
  have upper: "x < 2 powi (e + 1)"
  proof -
    have "rat_of_int p < 2 powi (e + 1) * 2 powi (bitlen q - 1)"
      using pb(2) by (simp add: e_def power_int_add [symmetric])
    also have "\<dots> \<le> 2 powi (e + 1) * rat_of_int q"
      using qb(1) by (simp add: mult_left_mono)
    finally show ?thesis
      using qpos by (simp add: x pos_divide_less_eq)
  qed
  have lower: "2 powi (e - 1) \<le> x"
  proof -
    have "2 powi (e - 1) * rat_of_int q \<le> 2 powi (e - 1) * 2 powi bitlen q"
      using qb(2) by (simp add: mult_left_mono)
    also have "\<dots> = 2 powi (bitlen p - 1)"
      by (simp add: e_def power_int_add [symmetric])
    also have "\<dots> \<le> rat_of_int p"
      by (rule pb(1))
    finally show ?thesis
      using qpos by (simp add: x pos_le_divide_eq)
  qed
  have fl: "floor_log2 x = (if 2 powi e \<le> x then e else e - 1)"
    by (simp add: floor_log2_def pq e_def pow2_powi)
  show ?thesis
  proof (cases "2 powi e \<le> x")
    case True
    with upper fl show ?thesis
      by (simp add: pow2_powi)
  next
    case False
    with lower fl show ?thesis
      by (simp add: pow2_powi)
  qed
qed

text \<open>The rounded value is within half a quantum of the number.\<close>

lemma round_half_even_near: "\<bar>of_int (round_half_even y) - y\<bar> \<le> 1 / 2"
proof -
  have "\<bar>of_int (let r = y - of_int f
                   in if r < 1 / 2 then f
                      else if 1 / 2 < r then f + 1
                      else if even f then f else f + 1) - y\<bar> \<le> 1 / 2"
    if "of_int f \<le> y" and "y < of_int f + 1" for f :: int
    using that by (auto simp: Let_def abs_if)
  from this [of "\<lfloor>y\<rfloor>"] show ?thesis
    unfolding round_half_even_def Let_def by linarith
qed

lemma round_double_near:
  "\<bar>round_double x - x\<bar> \<le> pow2 (max (floor_log2 \<bar>x\<bar> - 52) (- 1074)) / 2"
proof (cases "x = 0")
  case True
  then show ?thesis
    using pow2_pos [of "max (floor_log2 \<bar>x\<bar> - 52) (- 1074)"] by (simp add: round_double_def)
next
  case False
  define q where "q = max (floor_log2 \<bar>x\<bar> - 52) (- 1074)"
  define m where "m = round_half_even (\<bar>x\<bar> / pow2 q)"
  have p: "0 < pow2 q"
    by (rule pow2_pos)
  have "\<bar>of_int m - \<bar>x\<bar> / pow2 q\<bar> \<le> 1 / 2"
    unfolding m_def by (rule round_half_even_near)
  then have "\<bar>of_int m - \<bar>x\<bar> / pow2 q\<bar> * pow2 q \<le> 1 / 2 * pow2 q"
    using p by (simp add: mult_right_mono)
  moreover have "\<bar>of_int m - \<bar>x\<bar> / pow2 q\<bar> * pow2 q = \<bar>of_int m * pow2 q - \<bar>x\<bar>\<bar>"
  proof -
    have "\<bar>of_int m - \<bar>x\<bar> / pow2 q\<bar> * pow2 q = \<bar>(of_int m - \<bar>x\<bar> / pow2 q) * pow2 q\<bar>"
      using p by (simp only: abs_mult abs_of_pos)
    also have "(of_int m - \<bar>x\<bar> / pow2 q) * pow2 q = of_int m * pow2 q - \<bar>x\<bar>"
      using p by (simp add: left_diff_distrib)
    finally show ?thesis .
  qed
  ultimately have near: "\<bar>of_int m * pow2 q - \<bar>x\<bar>\<bar> \<le> pow2 q / 2"
    by simp
  have "round_double x = (if x < 0 then - (of_int m * pow2 q) else of_int m * pow2 q)"
    using False by (simp add: round_double_def Let_def q_def m_def)
  with near show ?thesis
    unfolding q_def [symmetric] by (auto simp: abs_if split: if_splits)
qed

text \<open>Integers up to \<open>2 ^ 53\<close> in magnitude are doubles, and so are their products within
  that range.\<close>

lemma round_double_one: "round_double 1 = 1"
  using round_double_of_int [of 1] by simp

lemma double_mul_int_numeral:
  "\<bar>a * numeral b\<bar> \<le> 2 ^ 53 \<Longrightarrow> double_mul (of_int a) (numeral b) = of_int (a * numeral b)"
  using double_mul_of_int [of a "numeral b"] by simp

subsection \<open>Writing and reading back\<close>

lemma those_map_inverse:
  "(\<And>x. f (g x) = Some x) \<Longrightarrow> those (map f (map g xs)) = Some xs"
  by (induction xs) simp_all

lemma z_array_z_string_JStr: "z_array z_string (JArr (map JStr xs)) = Some xs"
  unfolding z_array_def json.case
  by (rule those_map_inverse) (simp add: z_string_def)

lemma Task_schema_Task_json: "Task_schema (Task_json t) = Some t"
  by (cases "short_description t"; cases "tags t")
     (simp_all add: Task_schema_def Task_json_def z_required_def z_optional_def z_string_def
        z_array_z_string_JStr)

lemma Tasks_schema_Tasks_json: "Tasks_schema (Tasks_json ts) = Some ts"
  unfolding Tasks_schema_def Tasks_json_def z_array_def json.case
  by (rule those_map_inverse) (rule Task_schema_Task_json)

lemma TimeUnit_schema_showDuration_unit: "TimeUnit_schema (JStr (showDuration_unit u)) = Some u"
  by (cases u) (simp_all add: TimeUnit_schema_def showDuration_unit_def)

lemma Duration_schema_Duration_json: "Duration_schema (Duration_json d) = Some d"
  by (simp add: Duration_schema_def Duration_json_def z_required_def z_number_def
      TimeUnit_schema_showDuration_unit)

lemma Config_schema_Config_json: "Config_schema (Config_json c) = Some c"
  by (cases "baseURL c"; cases "apiKey c"; cases "model c"; cases "recency c")
     (simp_all add: Config_schema_def Config_json_def z_optional_def z_string_def
        Duration_schema_Duration_json)

lemma paths_differ: "get_config_filepath a \<noteq> get_tasks_filepath a"
  by (simp add: get_config_filepath_def get_tasks_filepath_def)

lemma load_tasks_save_tasks: "load_tasks (save_tasks w a ts) a = Inr ts"
  by (simp add: load_tasks_def save_tasks_def Bun_write_def Bun_file_json_def
      Tasks_schema_Tasks_json trySafeParse_def)

lemma files_save_tasks:
  "files (save_tasks w a ts) = (files w)(get_tasks_filepath a \<mapsto> JSONText (Tasks_json ts))"
  by (simp add: save_tasks_def Bun_write_def)

lemma load_tasks_files: "files w' = files w \<Longrightarrow> load_tasks w' a = load_tasks w a"
  by (simp add: load_tasks_def Bun_file_json_def)

lemma load_config_missing:
  "files w (get_config_filepath a) = None \<Longrightarrow> load_config rt w a = Inl FileError"
  by (simp add: load_config_def Bun_file_json_def)

lemma load_tasks_missing:
  "files w (get_tasks_filepath a) = None \<Longrightarrow> load_tasks w a = Inl FileError"
  by (simp add: load_tasks_def Bun_file_json_def)

lemma load_tasks_sample_world: "load_tasks (sample_world c) sample_argv = Inr sample_tasks"
  by (simp add: load_tasks_def Bun_file_json_def sample_world_def Tasks_schema_Tasks_json
      trySafeParse_def)

text \<open>After \<^verbatim>\<open>init\<close> the directory holds an empty task list and the default
  configuration.\<close>

lemma cmd_init_initialized:
  "load_tasks (snd (cmd_init w a)) a = Inr []"
  "Bun_file_json (snd (cmd_init w a)) (get_config_filepath a) = Inr (Config_json default_Config)"
  using paths_differ [of a]
  by (simp_all add: cmd_init_def save_config_def save_tasks_def Bun_write_def load_tasks_def
      Bun_file_json_def trySafeParse_def Tasks_schema_def Tasks_json_def z_array_def)

subsection \<open>What the commands leave alone\<close>

lemma generate_short_description_files:
  "files (snd (generate_short_description rt w a d)) = files w"
  by (simp add: generate_short_description_def split: sum.splits)

lemma backfill_files: "files (snd (backfill rt a w ts)) = files w"
proof (induction ts arbitrary: w)
  case Nil
  show ?case by simp
next
  case (Cons t ts)
  show ?case
  proof (cases "generate_short_description rt w a (description t)")
    case (Pair r w1)
    then have w1: "files w1 = files w"
      using generate_short_description_files [of rt w a "description t"] by simp
    from Cons.IH [of w1] Cons.IH [of w] Pair w1 show ?thesis
      by (auto split: sum.splits prod.splits)
  qed
qed

lemma files_tryAppResult: "files (snd (tryAppResult r)) = files (snd r)"
  by (simp add: tryAppResult_def split: sum.splits error.splits)

lemma cmd_new_Inl_files:
  "fst (cmd_new rt w now now' a task_arg tags_arg) = Inl e \<Longrightarrow>
   files (snd (cmd_new rt w now now' a task_arg tags_arg)) = files w"
  using generate_short_description_files [of rt w a "trim task_arg"]
  by (auto simp: cmd_new_def Let_def split: sum.splits prod.splits)

subsection \<open>The duration parser\<close>

lemmas number_defs = JSON_parse_def isJSONWhiteSpace_def JSON_number_def json_minus_def json_int_def
  json_frac_def json_exp_def json_value_def isDigit_def digits_val_def

lemmas duration_defs = parseDuration_def trim_def isWhiteSpace_def go_def trySafeParse_def
  z_number_def TimeUnit_schema_def

text \<open>The inputs of the specification that parse, and two that fail with an \<open>AppError\<close>.\<close>

lemma parseDuration_examples:
  "parseDuration structured ''1 day'' = Inr \<lparr>dur_n = 1, dur_unit = UDay\<rparr>"
  "parseDuration structured ''1.day'' = Inr \<lparr>dur_n = 1, dur_unit = UDay\<rparr>"
  "isAppError (projl (parseDuration structured ''1 fortnight''))"
  "isAppError (projl (parseDuration structured ''one''))"
  by (simp_all add: duration_defs number_defs round_double_one)

text \<open>A count with a fraction is read as the nearest double.\<close>

lemma parseDuration_fraction:
  "parseDuration structured ''2.01 min'' = Inr \<lparr>dur_n = round_double (201 / 100), dur_unit = UMin\<rparr>"
  by (simp add: duration_defs number_defs)

lemma trySafeParse_error: "trySafeParse label pr = Inl e \<Longrightarrow> isAppError e"
  by (auto simp: trySafeParse_def split: option.splits)

lemma JSON_parse_error: "JSON_parse structured s = Inl e \<Longrightarrow> e = SyntaxError"
  by (auto simp: JSON_parse_def Let_def split: list.splits option.splits if_splits)

lemma go_error: "go structured x y = Inl e \<Longrightarrow> isAppError e \<or> e = SyntaxError"
  by (auto simp: go_def split: sum.splits dest: trySafeParse_error JSON_parse_error)

text \<open>A failure of the parser is an \<open>AppError\<close> or the \<open>SyntaxError\<close> of \<^verbatim>\<open>JSON.parse\<close>.\<close>

lemma parseDuration_error:
  "parseDuration structured s = Inl e \<Longrightarrow> isAppError e \<or> e = SyntaxError"
  by (auto simp: parseDuration_def Let_def split: list.splits dest: go_error)

text \<open>
  Claim C2. The duration parser is to fail with an \<open>AppError\<close>, and with no other kind of
  error, on every input that is not a number and a recognized unit separated by one
  space or one period. On \<^verbatim>\<open>"abc day"\<close> and \<^verbatim>\<open>"day 1"\<close> the code does not: the first
  segment goes to \<^verbatim>\<open>JSON.parse\<close> before the number schema sees it, \<^verbatim>\<open>JSON.parse\<close> throws
  a \<open>SyntaxError\<close>, and \<^verbatim>\<open>tryAppResult\<close> throws it again instead of reporting it.
\<close>

theorem parseDuration_not_a_number:
  "parseDuration structured ''abc day'' = Inl SyntaxError
   \<and> parseDuration structured ''day 1'' = Inl SyntaxError
   \<and> \<not> isAppError SyntaxError
   \<and> tryAppResult (Inl SyntaxError :: error + Duration, w) = (Uncaught SyntaxError, w)"
  by (simp add: duration_defs number_defs tryAppResult_def)

subsection \<open>The time window\<close>

text \<open>The conversion of 2.01 minutes, 1.1 hours, 4.35 days and 0.07 weeks, the counts
  read as doubles: the first is the double written \<^verbatim>\<open>120599.99999999999\<close>.\<close>

lemma getTime_Duration_examples:
  "getTime_Duration \<lparr>dur_n = round_double (201 / 100), dur_unit = UMin\<rparr>
     = 8287568894361599 / 68719476736"
  "getTime_Duration \<lparr>dur_n = round_double (11 / 10), dur_unit = UHour\<rparr> = 3960000"
  "getTime_Duration \<lparr>dur_n = round_double (435 / 100), dur_unit = UDay\<rparr> = 375840000"
  "getTime_Duration \<lparr>dur_n = round_double (7 / 100), dur_unit = UWeek\<rparr> = 42336000"
  by code_simp+

text \<open>
  Claim C4, as the code has it. The conversion of a duration to milliseconds multiplies
  doubles from the left. For every count that is an integer with
  \<open>\<bar>count\<bar> * 22896000000 \<le> 2 ^ 53\<close> no product is rounded and the conversion is exact:
  the count times 60 seconds for a minute (the unit \<^verbatim>\<open>min\<close>), 3600 for an hour, 86400
  for a day and 604800 for a week, each times 1000, and for a year the count times
  \<open>1000 * 60 * 60 * 24 * 265\<close>, the constant of 265 days.
\<close>

theorem getTime_Duration_exact:
  assumes "\<bar>k\<bar> * 22896000000 \<le> 2 ^ 53"
  shows "getTime_Duration \<lparr>dur_n = of_int k, dur_unit = UMin\<rparr> = of_int k * 60 * 1000
   \<and> getTime_Duration \<lparr>dur_n = of_int k, dur_unit = UHour\<rparr> = of_int k * 3600 * 1000
   \<and> getTime_Duration \<lparr>dur_n = of_int k, dur_unit = UDay\<rparr> = of_int k * 86400 * 1000
   \<and> getTime_Duration \<lparr>dur_n = of_int k, dur_unit = UWeek\<rparr> = of_int k * 604800 * 1000
   \<and> getTime_Duration \<lparr>dur_n = of_int k, dur_unit = UYear\<rparr>
       = of_int k * 1000 * 60 * 60 * 24 * 265"
proof -
  have s1: "double_mul (of_int k) 1000 = of_int (k * 1000)"
    by (rule double_mul_int_numeral) (use assms in \<open>simp add: abs_mult\<close>)
  have s2: "double_mul (of_int (k * 1000)) 60 = of_int (k * 1000 * 60)"
    by (rule double_mul_int_numeral) (use assms in \<open>simp add: abs_mult\<close>)
  have s3: "double_mul (of_int (k * 1000 * 60)) 60 = of_int (k * 1000 * 60 * 60)"
    by (rule double_mul_int_numeral) (use assms in \<open>simp add: abs_mult\<close>)
  have s4: "double_mul (of_int (k * 1000 * 60 * 60)) 24 = of_int (k * 1000 * 60 * 60 * 24)"
    by (rule double_mul_int_numeral) (use assms in \<open>simp add: abs_mult\<close>)
  have s5: "double_mul (of_int (k * 1000 * 60 * 60 * 24)) 7 = of_int (k * 1000 * 60 * 60 * 24 * 7)"
    by (rule double_mul_int_numeral) (use assms in \<open>simp add: abs_mult\<close>)
  have s6: "double_mul (of_int (k * 1000 * 60 * 60 * 24)) 265
      = of_int (k * 1000 * 60 * 60 * 24 * 265)"
    by (rule double_mul_int_numeral) (use assms in \<open>simp add: abs_mult\<close>)
  show ?thesis
    unfolding getTime_Duration_def
    by (simp only: Duration.select_convs TimeUnit.case s1 s2 s3 s4 s5 s6) simp
qed

text \<open>Two minutes, hours, days, weeks and years.\<close>

theorem getTime_Duration_exact_witness:
  "\<bar>2 :: int\<bar> * 22896000000 \<le> 2 ^ 53
   \<and> getTime_Duration \<lparr>dur_n = 2, dur_unit = UMin\<rparr> = 120000
   \<and> getTime_Duration \<lparr>dur_n = 2, dur_unit = UHour\<rparr> = 7200000
   \<and> getTime_Duration \<lparr>dur_n = 2, dur_unit = UDay\<rparr> = 172800000
   \<and> getTime_Duration \<lparr>dur_n = 2, dur_unit = UWeek\<rparr> = 1209600000
   \<and> getTime_Duration \<lparr>dur_n = 2, dur_unit = UYear\<rparr> = 45792000000"
proof -
  have h: "\<bar>2 :: int\<bar> * 22896000000 \<le> 2 ^ 53"
    by simp
  from getTime_Duration_exact [OF h] h show ?thesis
    by simp
qed

text \<open>For the count 2.01, read as a double, the conversion of the code is neither the
  exact product of the count by 60 and by 1000 nor the product of doubles taken in
  that order, which is 120600.\<close>

theorem getTime_Duration_rounds:
  "getTime_Duration \<lparr>dur_n = round_double (201 / 100), dur_unit = UMin\<rparr>
     \<noteq> round_double (201 / 100) * 60 * 1000
   \<and> getTime_Duration \<lparr>dur_n = round_double (201 / 100), dur_unit = UMin\<rparr>
     \<noteq> double_mul (double_mul (round_double (201 / 100)) 60) 1000
   \<and> double_mul (double_mul (round_double (201 / 100)) 60) 1000 = 120600"
  by code_simp


text \<open>Tasks dated now, two hours ago and two days ago, filtered with one day: the first
  two, in that order.\<close>

lemma extract_recent_tasks_example:
  "extract_recent_tasks (sample_runtime Rejected) 172800000 sample_tasks \<lparr>dur_n = 1, dur_unit = UDay\<rparr>
     = [sample_tasks ! 0, sample_tasks ! 1]"
  by code_simp

subsection \<open>The tag filter\<close>

text \<open>
  Claim C9. With a non-empty list of filter tags, the tag filter of \<^verbatim>\<open>show\<close> returns the
  tasks that carry at least one of the tags, in the order of the input; a task whose
  tags are absent or empty is left out.
\<close>

theorem filter_tags_any:
  "tgs \<noteq> [] \<Longrightarrow>
   filter_tags tgs ts =
     filter (\<lambda>t. \<exists>tg. tags t = Some tg \<and> tg \<noteq> [] \<and> set tg \<inter> set tgs \<noteq> {}) ts
   \<and> subseq (filter_tags tgs ts) ts"
proof -
  assume ne: "tgs \<noteq> []"
  have "filter (\<lambda>task. tags task \<noteq> None \<and> \<not> list_all (\<lambda>tag. \<not> List.member (the (tags task)) tag) tgs) ts
        = filter (\<lambda>t. \<exists>tg. tags t = Some tg \<and> tg \<noteq> [] \<and> set tg \<inter> set tgs \<noteq> {}) ts"
    by (rule filter_cong) (auto simp: list_all_iff)
  with ne have "filter_tags tgs ts =
     filter (\<lambda>t. \<exists>tg. tags t = Some tg \<and> tg \<noteq> [] \<and> set tg \<inter> set tgs \<noteq> {}) ts"
    by (simp add: filter_tags_def)
  then show ?thesis
    by simp
qed

theorem filter_tags_any_witness:
  "[''a''] \<noteq> ([] :: string list)
   \<and> filter_tags [''a''] sample_tasks =
       filter (\<lambda>t. \<exists>tg. tags t = Some tg \<and> tg \<noteq> [] \<and> set tg \<inter> set [''a''] \<noteq> {}) sample_tasks
   \<and> subseq (filter_tags [''a''] sample_tasks) sample_tasks"
proof -
  have h: "[''a''] \<noteq> ([] :: string list)"
    by simp
  from filter_tags_any [OF h, of sample_tasks] h show ?thesis
    by blast
qed

text \<open>Tasks with the tags \<open>a\<close>, \<open>b\<close> and none, filtered by \<open>a\<close>: the first only.\<close>

lemma filter_tags_example: "filter_tags [''a''] sample_tasks = [sample_tasks ! 0]"
  by (simp add: filter_tags_def sample_tasks_def)

subsection \<open>The configuration\<close>

lemma load_config_spread:
  assumes "Bun_file_json w (get_config_filepath a) = Inr fj" and "Config_schema fj = Some cf"
    and "JSON_parse (JSON_structured rt) (config a) = Inr oj" and "Config_schema oj = Some co"
  shows "load_config rt w a = Inr (spread cf co)"
  using assms by (simp add: load_config_def trySafeParse_def)

lemma cmd_new_recency:
  assumes "fst (cmd_new rt w now now' a task_arg tags_arg) = Inr (k, rc)"
    and "load_config rt w a = Inr c"
  shows "rc = (case recency c of Some r \<Rightarrow> r | None \<Rightarrow> the (recency default_Config))"
  using assms
  by (auto simp: cmd_new_def Let_def split: sum.splits prod.splits)

text \<open>
  Claim C1, as the code has it. \<^verbatim>\<open>load_config\<close> resolves each field on its own: the
  value of the override when the override defines the field, otherwise the value of the
  stored file when the file defines it, otherwise the field stays absent. The built-in
  default is not part of the loaded configuration: it is taken where a command uses a
  field that is absent, for the base URL, the API key and the model in the
  chat-completion request, and for the recency in \<^verbatim>\<open>new\<close>. So the value a command uses
  is the override's, else the file's, else the default.
\<close>

theorem load_config_precedence:
  assumes "Bun_file_json w (get_config_filepath a) = Inr fj" and "Config_schema fj = Some cf"
    and "JSON_parse (JSON_structured rt) (config a) = Inr oj" and "Config_schema oj = Some co"
  shows "\<exists>c. load_config rt w a = Inr c
      \<and> baseURL c = (case baseURL co of Some v \<Rightarrow> Some v | None \<Rightarrow> baseURL cf)
      \<and> apiKey c = (case apiKey co of Some v \<Rightarrow> Some v | None \<Rightarrow> apiKey cf)
      \<and> model c = (case model co of Some v \<Rightarrow> Some v | None \<Rightarrow> model cf)
      \<and> recency c = (case recency co of Some v \<Rightarrow> Some v | None \<Rightarrow> recency cf)
      \<and> req_baseURL (make_request c sys usr)
          = (case baseURL co of Some v \<Rightarrow> v | None \<Rightarrow>
               (case baseURL cf of Some v \<Rightarrow> v | None \<Rightarrow> ''http://localhost:11434/v1''))
      \<and> req_apiKey (make_request c sys usr)
          = (case apiKey co of Some v \<Rightarrow> v | None \<Rightarrow>
               (case apiKey cf of Some v \<Rightarrow> v | None \<Rightarrow> ''ollama''))
      \<and> req_model (make_request c sys usr)
          = (case model co of Some v \<Rightarrow> v | None \<Rightarrow>
               (case model cf of Some v \<Rightarrow> v | None \<Rightarrow> ''llama3.2:latest''))
      \<and> (\<forall>k rc. fst (cmd_new rt w now now' a task_arg tags_arg) = Inr (k, rc) \<longrightarrow>
            rc = (case recency co of Some v \<Rightarrow> v | None \<Rightarrow>
                    (case recency cf of Some v \<Rightarrow> v | None \<Rightarrow> \<lparr>dur_n = 1, dur_unit = UDay\<rparr>)))"
proof -
  have c: "load_config rt w a = Inr (spread cf co)"
    using assms by (rule load_config_spread)
  have fields:
    "baseURL (spread cf co) = (case baseURL co of Some v \<Rightarrow> Some v | None \<Rightarrow> baseURL cf)"
    "apiKey (spread cf co) = (case apiKey co of Some v \<Rightarrow> Some v | None \<Rightarrow> apiKey cf)"
    "model (spread cf co) = (case model co of Some v \<Rightarrow> Some v | None \<Rightarrow> model cf)"
    "recency (spread cf co) = (case recency co of Some v \<Rightarrow> Some v | None \<Rightarrow> recency cf)"
    by (simp_all add: spread_def)
  have requests:
    "req_baseURL (make_request (spread cf co) sys usr)
       = (case baseURL co of Some v \<Rightarrow> v | None \<Rightarrow>
            (case baseURL cf of Some v \<Rightarrow> v | None \<Rightarrow> ''http://localhost:11434/v1''))"
    "req_apiKey (make_request (spread cf co) sys usr)
       = (case apiKey co of Some v \<Rightarrow> v | None \<Rightarrow>
            (case apiKey cf of Some v \<Rightarrow> v | None \<Rightarrow> ''ollama''))"
    "req_model (make_request (spread cf co) sys usr)
       = (case model co of Some v \<Rightarrow> v | None \<Rightarrow>
            (case model cf of Some v \<Rightarrow> v | None \<Rightarrow> ''llama3.2:latest''))"
    by (simp_all add: make_request_def spread_def default_Config_def split: option.splits)
  have "rc = (case recency co of Some v \<Rightarrow> v | None \<Rightarrow>
                (case recency cf of Some v \<Rightarrow> v | None \<Rightarrow> \<lparr>dur_n = 1, dur_unit = UDay\<rparr>))"
    if "fst (cmd_new rt w now now' a task_arg tags_arg) = Inr (k, rc)" for k rc
    using cmd_new_recency [OF that c]
    by (simp add: spread_def default_Config_def split: option.splits)
  with c fields requests show ?thesis
    by blast
qed

text \<open>The file gives the model \<open>x\<close> and the override the model \<open>y\<close>: the loaded model is
  \<open>y\<close>, the API key of the request is the default, and \<^verbatim>\<open>new\<close> reports the default
  recency.\<close>

theorem load_config_precedence_witness:
  "Bun_file_json (sample_world (JObj [(''model'', JStr ''x'')])) (get_config_filepath override_argv)
     = Inr (JObj [(''model'', JStr ''x'')])
   \<and> Config_schema (JObj [(''model'', JStr ''x'')])
     = Some \<lparr>baseURL = None, apiKey = None, model = Some ''x'', recency = None\<rparr>
   \<and> JSON_parse (JSON_structured (sample_runtime (Response [Some ''summary'']))) (config override_argv)
     = Inr (JObj [(''model'', JStr ''y'')])
   \<and> Config_schema (JObj [(''model'', JStr ''y'')])
     = Some \<lparr>baseURL = None, apiKey = None, model = Some ''y'', recency = None\<rparr>
   \<and> fst (cmd_new (sample_runtime (Response [Some ''summary''])) (sample_world (JObj [(''model'', JStr ''x'')]))
          172800000 172800000 override_argv ''did it'' None)
     = Inr (3, \<lparr>dur_n = 1, dur_unit = UDay\<rparr>)
   \<and> (\<exists>c. load_config (sample_runtime (Response [Some ''summary'']))
              (sample_world (JObj [(''model'', JStr ''x'')])) override_argv = Inr c
          \<and> model c = Some ''y''
          \<and> req_model (make_request c [] []) = ''y''
          \<and> req_apiKey (make_request c [] []) = ''ollama'')"
proof -
  have h1: "Bun_file_json (sample_world (JObj [(''model'', JStr ''x'')])) (get_config_filepath override_argv)
     = Inr (JObj [(''model'', JStr ''x'')])"
    by (simp add: Bun_file_json_def sample_world_def get_config_filepath_def get_tasks_filepath_def
        override_argv_def sample_argv_def)
  have h2: "Config_schema (JObj [(''model'', JStr ''x'')])
     = Some \<lparr>baseURL = None, apiKey = None, model = Some ''x'', recency = None\<rparr>"
    by (simp add: Config_schema_def z_optional_def z_string_def)
  have h3: "JSON_parse (JSON_structured (sample_runtime (Response [Some ''summary'']))) (config override_argv)
     = Inr (JObj [(''model'', JStr ''y'')])"
    by (simp add: JSON_parse_def isJSONWhiteSpace_def sample_runtime_def sample_structured_def
        override_argv_def)
  have h4: "Config_schema (JObj [(''model'', JStr ''y'')])
     = Some \<lparr>baseURL = None, apiKey = None, model = Some ''y'', recency = None\<rparr>"
    by (simp add: Config_schema_def z_optional_def z_string_def)
  have h5: "fst (cmd_new (sample_runtime (Response [Some ''summary''])) (sample_world (JObj [(''model'', JStr ''x'')]))
          172800000 172800000 override_argv ''did it'' None)
     = Inr (3, \<lparr>dur_n = 1, dur_unit = UDay\<rparr>)"
    by code_simp
  from load_config_precedence [OF h1 h2 h3 h4, of "[]" "[]" 172800000 172800000 "''did it''" None]
  have "\<exists>c. load_config (sample_runtime (Response [Some ''summary'']))
              (sample_world (JObj [(''model'', JStr ''x'')])) override_argv = Inr c
          \<and> model c = Some ''y''
          \<and> req_model (make_request c [] []) = ''y''
          \<and> req_apiKey (make_request c [] []) = ''ollama''"
    by auto
  with h1 h2 h3 h4 h5 show ?thesis
    by blast
qed

text \<open>With an empty file and an empty override the loaded configuration has no model,
  where the claim takes the default.\<close>

theorem load_config_no_default:
  "load_config (sample_runtime Rejected) (sample_world (JObj [])) sample_argv
     = Inr \<lparr>baseURL = None, apiKey = None, model = None, recency = None\<rparr>
   \<and> model default_Config = Some ''llama3.2:latest''"
  by (simp add: load_config_def Bun_file_json_def sample_world_def get_config_filepath_def
      get_tasks_filepath_def sample_argv_def trySafeParse_def Config_schema_def z_optional_def
      JSON_parse_def isJSONWhiteSpace_def sample_runtime_def sample_structured_def spread_def
      default_Config_def)

subsection \<open>The summary client\<close>

text \<open>
  Claim C7. When the first choice of the reply has a \<^verbatim>\<open>null\<close> content, or when the
  request is rejected, the summary client is to fail with an application error, on the
  path of \<^verbatim>\<open>summarize\<close> as on the path of the short description. The short-description
  path does: its \<^verbatim>\<open>try\<close> block turns both into an \<open>AppError\<close>. \<^verbatim>\<open>summarize\<close> has no such
  block and no test of the content: with a \<^verbatim>\<open>null\<close> content it prints \<^verbatim>\<open>null\<close> and
  completes, and a rejected request leaves the command as an error that is not an
  \<open>AppError\<close>.
\<close>

theorem summarize_prints_null:
  "fst (cmd_summarize (sample_runtime (Response [None])) (sample_world (JObj [])) 172800000
          sample_argv ''1 day'') = Inr None
   \<and> fst (tryAppResult (cmd_summarize (sample_runtime (Response [None])) (sample_world (JObj []))
          172800000 sample_argv ''1 day'')) = Completed
   \<and> fst (tryAppResult (cmd_summarize (sample_runtime Rejected) (sample_world (JObj []))
          172800000 sample_argv ''1 day'')) = Uncaught APIError
   \<and> isAppError (projl (fst (generate_short_description (sample_runtime (Response [None]))
          (sample_world (JObj [])) sample_argv ''wrote the report'')))
   \<and> isAppError (projl (fst (generate_short_description (sample_runtime Rejected)
          (sample_world (JObj [])) sample_argv ''wrote the report'')))"
  by code_simp

text \<open>Each call of \<^verbatim>\<open>generate_short_description\<close> that reaches the endpoint sends one
  request, whatever the answer: nothing is tried again.\<close>

lemma generate_short_description_requests:
  "requests (snd (generate_short_description rt w a d)) \<le> Suc (requests w)"
  by (simp add: generate_short_description_def split: sum.splits)

lemma cmd_summarize_requests:
  "requests (snd (cmd_summarize rt w now a duration_arg)) \<le> Suc (requests w)"
  by (simp add: cmd_summarize_def split: sum.splits chat_outcome.splits list.splits)

subsection \<open>The backfill of short descriptions\<close>

lemma backfilled_refl: "short_description t \<noteq> None \<Longrightarrow> backfilled t t"
  by (auto simp: backfilled_def)

lemma backfill_frame:
  "backfill rt a w ts = (Inr ts', w') \<Longrightarrow> list_all2 backfilled ts ts'"
proof (induction ts arbitrary: w ts' w')
  case Nil
  then show ?case by simp
next
  case (Cons t ts)
  show ?case
  proof (cases "short_description t = None")
    case True
    with Cons.prems obtain sd w1 ts1 where
      "generate_short_description rt w a (description t) = (Inr sd, w1)"
      and rest: "backfill rt a w1 ts = (Inr ts1, w')"
      and ts': "ts' = t\<lparr>short_description := Some sd\<rparr> # ts1"
      by (auto split: sum.splits prod.splits)
    from Cons.IH [OF rest] ts' True show ?thesis
      by (simp add: backfilled_def)
  next
    case False
    with Cons.prems obtain ts1 where
      rest: "backfill rt a w ts = (Inr ts1, w')" and ts': "ts' = t # ts1"
      by (auto split: sum.splits prod.splits)
    from Cons.IH [OF rest] ts' False show ?thesis
      by (simp add: backfilled_refl)
  qed
qed

lemma generate_short_description_fails:
  assumes "\<forall>k req. req_user req = d \<longrightarrow> isl (reply_content (chat_create rt k req))"
  shows "isl (fst (generate_short_description rt w a d))"
proof (cases "load_config rt w a")
  case (Inl e)
  then show ?thesis
    by (simp add: generate_short_description_def)
next
  case (Inr cfg)
  have "req_user (make_request cfg short_description_prompt d) = d"
    by (simp add: make_request_def)
  with assms have "isl (reply_content (chat_create rt (requests w) (make_request cfg short_description_prompt d)))"
    by blast
  with Inr show ?thesis
    by (auto simp: generate_short_description_def split: sum.splits)
qed

lemma backfill_fails:
  assumes "t \<in> set ts" and "short_description t = None"
    and "\<forall>k req. req_user req = description t \<longrightarrow> isl (reply_content (chat_create rt k req))"
  shows "isl (fst (backfill rt a w ts))"
  using assms(1)
proof (induction ts arbitrary: w)
  case Nil
  then show ?case by simp
next
  case (Cons x xs)
  show ?case
  proof (cases "x = t")
    case True
    with assms(2,3) generate_short_description_fails [of "description t" rt w a]
    show ?thesis
      by (auto split: sum.splits prod.splits)
  next
    case False
    with Cons.prems have "t \<in> set xs"
      by simp
    have rest: "\<exists>e w2. backfill rt a w1 xs = (Inl e, w2)" for w1
    proof -
      have "isl (fst (backfill rt a w1 xs))"
        using \<open>t \<in> set xs\<close> by (rule Cons.IH)
      then show ?thesis
        by (cases "backfill rt a w1 xs") (auto simp: isl_def)
    qed
    show ?thesis
    proof (cases "short_description x = None")
      case True
      obtain r w1 where g: "generate_short_description rt w a (description x) = (r, w1)"
        by (cases "generate_short_description rt w a (description x)")
      show ?thesis
      proof (cases r)
        case (Inl e)
        with g True show ?thesis by simp
      next
        case (Inr sd)
        from rest [of w1] obtain e w2 where "backfill rt a w1 xs = (Inl e, w2)"
          by blast
        with g Inr True show ?thesis by simp
      qed
    next
      case False
      from rest [of w] obtain e w2 where "backfill rt a w xs = (Inl e, w2)"
        by blast
      with False show ?thesis by auto
    qed
  qed
qed

text \<open>Whenever the command ends with an error, whatever the error, the files are what
  they were.\<close>

lemma cmd_gen_short_descriptions_Inl_files:
  assumes "fst (cmd_gen_short_descriptions rt w a) = Inl e"
  shows "files (snd (cmd_gen_short_descriptions rt w a)) = files w"
proof (cases "load_tasks w a")
  case (Inl e')
  then show ?thesis
    by (simp add: cmd_gen_short_descriptions_def)
next
  case (Inr ts)
  obtain r w1 where b: "backfill rt a w ts = (r, w1)"
    by (cases "backfill rt a w ts")
  then have "files w1 = files w"
    using backfill_files [of rt a w ts] by simp
  with assms Inr b show ?thesis
    by (cases r) (simp_all add: cmd_gen_short_descriptions_def)
qed

text \<open>
  Claim C5. When the task file holds a task without a short description whose summary
  request fails (the request is rejected, or the reply has no choice or a \<^verbatim>\<open>null\<close>
  content), \<^verbatim>\<open>gen-short-descriptions\<close> ends with an error and saves nothing: the files
  are what they were, so no short description generated before the failure is written.
\<close>

theorem gen_short_descriptions_aborts:
  assumes "load_tasks w a = Inr ts" and "t \<in> set ts" and "short_description t = None"
    and "\<forall>k req. req_user req = description t \<longrightarrow> isl (reply_content (chat_create rt k req))"
  shows "(\<exists>e. fst (cmd_gen_short_descriptions rt w a) = Inl e)
         \<and> files (snd (cmd_gen_short_descriptions rt w a)) = files w
         \<and> files (snd (tryAppResult (cmd_gen_short_descriptions rt w a))) = files w"
proof -
  obtain r w1 where b: "backfill rt a w ts = (r, w1)"
    by (cases "backfill rt a w ts")
  then have "isl r"
    using backfill_fails [OF assms(2,3,4), of a w] by simp
  then obtain e where r: "r = Inl e"
    by (cases r) simp_all
  with assms(1) b have fails: "fst (cmd_gen_short_descriptions rt w a) = Inl e"
    by (simp add: cmd_gen_short_descriptions_def)
  then have "files (snd (cmd_gen_short_descriptions rt w a)) = files w"
    by (rule cmd_gen_short_descriptions_Inl_files)
  with fails show ?thesis
    by (auto simp: files_tryAppResult)
qed

text \<open>The endpoint rejects every request; the second sample task has no short
  description.\<close>

theorem gen_short_descriptions_aborts_witness:
  "load_tasks (sample_world (JObj [])) sample_argv = Inr sample_tasks
   \<and> sample_tasks ! 1 \<in> set sample_tasks
   \<and> short_description (sample_tasks ! 1) = None
   \<and> (\<exists>e. fst (cmd_gen_short_descriptions (sample_runtime Rejected) (sample_world (JObj [])) sample_argv)
          = Inl e)
   \<and> files (snd (cmd_gen_short_descriptions (sample_runtime Rejected) (sample_world (JObj [])) sample_argv))
       = files (sample_world (JObj []))"
proof -
  have h1: "load_tasks (sample_world (JObj [])) sample_argv = Inr sample_tasks"
    by (rule load_tasks_sample_world)
  have h2: "sample_tasks ! 1 \<in> set sample_tasks"
    by (simp add: sample_tasks_def)
  have h3: "short_description (sample_tasks ! 1) = None"
    by (simp add: sample_tasks_def)
  have h4: "\<forall>k req. req_user req = description (sample_tasks ! 1) \<longrightarrow>
          isl (reply_content (chat_create (sample_runtime Rejected) k req))"
    by (simp add: sample_runtime_def reply_content_def)
  from gen_short_descriptions_aborts [OF h1 h2 h3 h4] h1 h2 h3 show ?thesis
    by blast
qed

text \<open>
  Claim C6. After a run of \<^verbatim>\<open>gen-short-descriptions\<close> that succeeds, the task file holds
  as many tasks as before, in the same order; each has the date, the description and
  the tags it had; a task that had a short description has the same one, and a task
  that had none has one. The configuration file is not written.
\<close>

theorem gen_short_descriptions_frame:
  assumes "load_tasks w a = Inr ts" and "fst (cmd_gen_short_descriptions rt w a) = Inr u"
  shows "\<exists>ts'. load_tasks (snd (cmd_gen_short_descriptions rt w a)) a = Inr ts'
           \<and> list_all2 backfilled ts ts'
           \<and> files (snd (cmd_gen_short_descriptions rt w a)) (get_config_filepath a)
               = files w (get_config_filepath a)"
proof -
  obtain r w1 where b: "backfill rt a w ts = (r, w1)"
    by (cases "backfill rt a w ts")
  with assms obtain ts' where r: "r = Inr ts'"
    by (cases r) (simp_all add: cmd_gen_short_descriptions_def)
  have w1: "files w1 = files w"
    using backfill_files [of rt a w ts] b by simp
  from assms(1) b r have s: "snd (cmd_gen_short_descriptions rt w a) = save_tasks w1 a ts'"
    by (simp add: cmd_gen_short_descriptions_def)
  have "list_all2 backfilled ts ts'"
    using b r by (auto intro: backfill_frame)
  moreover have "files (save_tasks w1 a ts') (get_config_filepath a) = files w (get_config_filepath a)"
    using w1 paths_differ [of a] by (simp add: files_save_tasks)
  ultimately show ?thesis
    using s by (simp add: load_tasks_save_tasks)
qed

theorem gen_short_descriptions_frame_witness:
  "load_tasks (sample_world (JObj [])) sample_argv = Inr sample_tasks
   \<and> fst (cmd_gen_short_descriptions (sample_runtime (Response [Some ''summary''])) (sample_world (JObj []))
          sample_argv) = Inr ()
   \<and> (\<exists>ts'. load_tasks (snd (cmd_gen_short_descriptions (sample_runtime (Response [Some ''summary'']))
                  (sample_world (JObj [])) sample_argv)) sample_argv = Inr ts'
            \<and> list_all2 backfilled sample_tasks ts')"
proof -
  have h1: "load_tasks (sample_world (JObj [])) sample_argv = Inr sample_tasks"
    by (rule load_tasks_sample_world)
  have h2: "fst (cmd_gen_short_descriptions (sample_runtime (Response [Some ''summary''])) (sample_world (JObj []))
          sample_argv) = Inr ()"
    by code_simp
  from gen_short_descriptions_frame [OF h1 h2] h1 h2 show ?thesis
    by blast
qed

text \<open>The three sample tasks after the run: the first keeps its short description, the
  other two receive the reply.\<close>

lemma gen_short_descriptions_example:
  "load_tasks (snd (cmd_gen_short_descriptions (sample_runtime (Response [Some ''summary'']))
       (sample_world (JObj [])) sample_argv)) sample_argv
   = Inr [\<lparr>date = ''Sat, 03 Jan 1970 00:00:00 GMT'', description = ''wrote the report'',
            short_description = Some ''report'', tags = Some [''a'']\<rparr>,
          \<lparr>date = ''Fri, 02 Jan 1970 22:00:00 GMT'', description = ''fixed the parser'',
            short_description = Some ''summary'', tags = Some [''b'']\<rparr>,
          \<lparr>date = ''Thu, 01 Jan 1970 00:00:00 GMT'', description = ''planned the week'',
            short_description = Some ''summary'', tags = Some []\<rparr>]"
  by code_simp

subsection \<open>The command \<^verbatim>\<open>new\<close>\<close>

text \<open>
  Claim C8, as the code has it. When the configuration file or the task file is
  missing, \<^verbatim>\<open>new\<close> fails and writes nothing: no file is created or changed. No command
  tests that a file exists, so when the configuration file is missing the failure is
  the error of the runtime's file read: it is not an \<open>AppError\<close>, and \<^verbatim>\<open>tryAppResult\<close>
  throws it again instead of printing its message.
\<close>

theorem cmd_new_uninitialized:
  assumes "files w (get_config_filepath a) = None \<or> files w (get_tasks_filepath a) = None"
  shows "(\<exists>e. fst (cmd_new rt w now now' a task_arg tags_arg) = Inl e)
         \<and> files (snd (tryAppResult (cmd_new rt w now now' a task_arg tags_arg))) = files w
         \<and> (files w (get_config_filepath a) = None \<longrightarrow>
              fst (tryAppResult (cmd_new rt w now now' a task_arg tags_arg)) = Uncaught FileError)"
proof -
  let ?r = "cmd_new rt w now now' a task_arg tags_arg"
  have fails: "\<exists>e. fst ?r = Inl e"
  proof (cases "files w (get_config_filepath a) = None")
    case True
    then show ?thesis
      by (simp add: cmd_new_def load_config_missing)
  next
    case False
    with assms have missing: "files w (get_tasks_filepath a) = None"
      by simp
    obtain r1 w1 where g: "generate_short_description rt w a (trim task_arg) = (r1, w1)"
      by (cases "generate_short_description rt w a (trim task_arg)")
    then have "files w1 = files w"
      using generate_short_description_files [of rt w a "trim task_arg"] by simp
    with missing have "load_tasks w1 a = Inl FileError"
      by (simp add: load_tasks_missing)
    with g show ?thesis
      by (auto simp: cmd_new_def split: sum.splits)
  qed
  then obtain e where e: "fst ?r = Inl e" ..
  then have frame: "files (snd (tryAppResult ?r)) = files w"
    by (simp add: files_tryAppResult cmd_new_Inl_files)
  have "fst (tryAppResult ?r) = Uncaught FileError" if "files w (get_config_filepath a) = None"
    using that by (simp add: cmd_new_def load_config_missing tryAppResult_def)
  with fails frame show ?thesis
    by blast
qed

theorem cmd_new_uninitialized_witness:
  "(files uninitialized_world (get_config_filepath sample_argv) = None
     \<or> files uninitialized_world (get_tasks_filepath sample_argv) = None)
   \<and> fst (tryAppResult (cmd_new (sample_runtime Rejected) uninitialized_world 0 0 sample_argv ''done'' None))
       = Uncaught FileError
   \<and> files (snd (tryAppResult (cmd_new (sample_runtime Rejected) uninitialized_world 0 0 sample_argv ''done'' None)))
       = files uninitialized_world"
proof -
  have h: "files uninitialized_world (get_config_filepath sample_argv) = None"
    by (simp add: uninitialized_world_def)
  then have "files uninitialized_world (get_config_filepath sample_argv) = None
     \<or> files uninitialized_world (get_tasks_filepath sample_argv) = None"
    by simp
  from cmd_new_uninitialized [OF this, of "sample_runtime Rejected" 0 0 "''done''" None] h
  show ?thesis
    by blast
qed

text \<open>In a directory that holds nothing, the error of \<^verbatim>\<open>new\<close> is not reported at the
  command boundary, where the claim has an application error printed.\<close>

theorem cmd_new_uninitialized_not_reported:
  "fst (tryAppResult (cmd_new (sample_runtime Rejected) uninitialized_world 0 0 sample_argv ''done'' None))
     = Uncaught FileError
   \<and> \<not> isAppError FileError"
  by (simp add: cmd_new_def load_config_def Bun_file_json_def uninitialized_world_def tryAppResult_def)

text \<open>
  Claim C10. A task created by \<^verbatim>\<open>new\<close> has its tags defined: when the command succeeds
  the task file holds the tasks it held and the new task after them, and the tags of
  the new task are the empty list when the option is not given or is blank after
  trimming, and the segments of the trimmed option split at the commas otherwise.
\<close>

theorem cmd_new_tags_defined:
  assumes "fst (cmd_new rt w now now' a task_arg tags_arg) = Inr r"
  shows "\<exists>ts t. load_tasks w a = Inr ts
           \<and> load_tasks (snd (cmd_new rt w now now' a task_arg tags_arg)) a = Inr (ts @ [t])
           \<and> tags t \<noteq> None
           \<and> tags t = Some (case tags_arg of
                              None \<Rightarrow> []
                            | Some s \<Rightarrow> if trim s = [] then [] else split CHR '','' (trim s))"
proof -
  obtain r1 w1 where g: "generate_short_description rt w a (trim task_arg) = (r1, w1)"
    by (cases "generate_short_description rt w a (trim task_arg)")
  then have w1: "files w1 = files w"
    using generate_short_description_files [of rt w a "trim task_arg"] by simp
  from assms g obtain cfg sd ts where
    "load_config rt w a = Inr cfg" and r1: "r1 = Inr sd" and ts: "load_tasks w1 a = Inr ts"
    by (auto simp: cmd_new_def Let_def split: sum.splits)
  with g have "snd (cmd_new rt w now now' a task_arg tags_arg)
      = save_tasks w1 a (ts @ [new_task rt now (trim task_arg) sd tags_arg])"
    by (simp add: cmd_new_def Let_def)
  then have "load_tasks (snd (cmd_new rt w now now' a task_arg tags_arg)) a
      = Inr (ts @ [new_task rt now (trim task_arg) sd tags_arg])"
    by (simp add: load_tasks_save_tasks)
  moreover have "load_tasks w a = Inr ts"
    using ts w1 load_tasks_files [of w1 w a] by simp
  moreover have "tags (new_task rt now (trim task_arg) sd tags_arg)
      = Some (case tags_arg of None \<Rightarrow> [] | Some s \<Rightarrow> if trim s = [] then [] else split CHR '','' (trim s))"
    by (cases tags_arg) (simp_all add: new_task_def)
  ultimately show ?thesis
    by auto
qed

theorem cmd_new_tags_defined_witness:
  "fst (cmd_new (sample_runtime (Response [Some ''summary''])) (sample_world (JObj []))
          172800000 172800000 sample_argv ''did it'' (Some '' x,y '')) = Inr (3, \<lparr>dur_n = 1, dur_unit = UDay\<rparr>)
   \<and> (\<exists>ts t. load_tasks (sample_world (JObj [])) sample_argv = Inr ts
         \<and> load_tasks (snd (cmd_new (sample_runtime (Response [Some ''summary''])) (sample_world (JObj []))
              172800000 172800000 sample_argv ''did it'' (Some '' x,y ''))) sample_argv = Inr (ts @ [t])
         \<and> tags t = Some [''x'', ''y''])"
proof -
  have h: "fst (cmd_new (sample_runtime (Response [Some ''summary''])) (sample_world (JObj []))
          172800000 172800000 sample_argv ''did it'' (Some '' x,y '')) = Inr (3, \<lparr>dur_n = 1, dur_unit = UDay\<rparr>)"
    by code_simp
  have s: "split CHR '','' (trim '' x,y '') = [''x'', ''y'']" "trim '' x,y '' \<noteq> []"
    by (simp_all add: trim_def isWhiteSpace_def)
  from cmd_new_tags_defined [OF h] s h show ?thesis
    by auto
qed

end
